theory Spec2Isabelle
  imports Main "HOL-Library.Word"
begin

unbundle bit_operations_syntax

section \<open>Pointers and fatal checks\<close>

text \<open>
  The file \<open>src/base/platform/mutex.cc\<close> is modelled in its DEBUG build: every
  \<open>DCHECK\<close> is a branch of the model, and a failed check is the value \<open>Inl Fatal\<close>
  (the process aborts, there is no state afterwards).
  A pointer is an address, \<open>nullptr\<close> is the address 0.
\<close>

type_synonym ptr = nat

abbreviation (input) nullptr :: ptr where
  "nullptr \<equiv> 0"

datatype error = Fatal

section \<open>The thread-local tracker of held shared mutexes\<close>

text \<open>
  The two \<open>thread_local\<close> variables of one thread. \<open>held_shared_mutexes\<close> is a
  pointer to a heap-allocated \<open>std::unordered_set\<close>: \<open>None\<close> is the null pointer,
  \<open>Some s\<close> an allocated set with the elements \<open>s\<close>.
\<close>

record tracker =
  single_held_shared_mutex :: ptr
  held_shared_mutexes :: "ptr set option"

definition initial_tracker :: tracker where
  "initial_tracker =
     \<lparr>single_held_shared_mutex = nullptr, held_shared_mutexes = None\<rparr>"

definition SharedMutexNotHeld :: "ptr \<Rightarrow> tracker \<Rightarrow> error + bool" where
  "SharedMutexNotHeld shared_mutex t =
     (if shared_mutex = nullptr then Inl Fatal
      else Inr (single_held_shared_mutex t \<noteq> shared_mutex \<and>
                (case held_shared_mutexes t of
                   None \<Rightarrow> True
                 | Some s \<Rightarrow> shared_mutex \<notin> s)))"

definition TryHoldSharedMutex :: "ptr \<Rightarrow> tracker \<Rightarrow> error + (bool \<times> tracker)" where
  "TryHoldSharedMutex shared_mutex t =
     (if shared_mutex = nullptr then Inl Fatal
      else if single_held_shared_mutex t \<noteq> nullptr then
        (if shared_mutex = single_held_shared_mutex t then Inr (False, t)
         else if held_shared_mutexes t \<noteq> None then Inl Fatal
         else Inr (True,
                t\<lparr>held_shared_mutexes :=
                     Some {single_held_shared_mutex t, shared_mutex},
                   single_held_shared_mutex := nullptr\<rparr>))
      else
        (case held_shared_mutexes t of
           Some s \<Rightarrow>
             Inr (shared_mutex \<notin> s,
                  t\<lparr>held_shared_mutexes := Some (insert shared_mutex s)\<rparr>)
         | None \<Rightarrow>
             (if single_held_shared_mutex t \<noteq> nullptr then Inl Fatal
              else Inr (True, t\<lparr>single_held_shared_mutex := shared_mutex\<rparr>))))"

definition TryReleaseSharedMutex :: "ptr \<Rightarrow> tracker \<Rightarrow> error + (bool \<times> tracker)" where
  "TryReleaseSharedMutex shared_mutex t =
     (if shared_mutex = nullptr then Inl Fatal
      else if single_held_shared_mutex t = shared_mutex then
        Inr (True, t\<lparr>single_held_shared_mutex := nullptr\<rparr>)
      else
        (case held_shared_mutexes t of
           Some s \<Rightarrow>
             (if shared_mutex \<in> s then
                (if s - {shared_mutex} = {}
                 then Inr (True, t\<lparr>held_shared_mutexes := None\<rparr>)
                 else Inr (True,
                        t\<lparr>held_shared_mutexes := Some (s - {shared_mutex})\<rparr>))
              else Inr (False, t))
         | None \<Rightarrow> Inr (False, t)))"

text \<open>
  The states a thread's tracker can be in: the initial one, and every state a
  returning call of \<open>TryHoldSharedMutex\<close> or \<open>TryReleaseSharedMutex\<close> leaves
  behind (whatever it returns).
\<close>

inductive reachable :: "tracker \<Rightarrow> bool" where
  reachable_init: "reachable initial_tracker"
| reachable_hold:
    "reachable t \<Longrightarrow> TryHoldSharedMutex m t = Inr (b, t') \<Longrightarrow> reachable t'"
| reachable_release:
    "reachable t \<Longrightarrow> TryReleaseSharedMutex m t = Inr (b, t') \<Longrightarrow> reachable t'"

text \<open>The set of instances the tracker records, whichever variable holds them.\<close>

definition held_set :: "tracker \<Rightarrow> ptr set" where
  "held_set t =
     (if single_held_shared_mutex t \<noteq> nullptr
      then {single_held_shared_mutex t} else {}) \<union>
     (case held_shared_mutexes t of None \<Rightarrow> {} | Some s \<Rightarrow> s)"

text \<open>
  The representation invariant: the slot and the fallback set are never both in
  use, and an allocated fallback set has an element.
\<close>

definition tracker_inv :: "tracker \<Rightarrow> bool" where
  "tracker_inv t =
     (\<not> (single_held_shared_mutex t \<noteq> nullptr \<and> held_shared_mutexes t \<noteq> None) \<and>
      (case held_shared_mutexes t of None \<Rightarrow> True | Some s \<Rightarrow> s \<noteq> {}))"

subsection \<open>The six operations of SharedMutex\<close>

text \<open>
  \<open>DCHECK(e)\<close> on a call \<open>e\<close> that returns a bool and changes the tracker: the call
  is made, and a false result is fatal. The native reader/writer lock is an
  external resource: a blocking acquisition is not modelled, and the result of a
  non-blocking one is the parameter \<open>result\<close>. \<open>LockShared\<close> and \<open>LockExclusive\<close>
  (and the two unlocks, and the two try-locks) differ only in the native call.
\<close>

definition DCHECK_call :: "error + (bool \<times> tracker) \<Rightarrow> error + tracker" where
  "DCHECK_call r =
     (case r of
        Inl e \<Rightarrow> Inl e
      | Inr (b, t') \<Rightarrow> (if b then Inr t' else Inl Fatal))"

definition LockShared :: "ptr \<Rightarrow> tracker \<Rightarrow> error + tracker" where
  "LockShared this t = DCHECK_call (TryHoldSharedMutex this t)"

definition LockExclusive :: "ptr \<Rightarrow> tracker \<Rightarrow> error + tracker" where
  "LockExclusive this t = DCHECK_call (TryHoldSharedMutex this t)"

definition UnlockShared :: "ptr \<Rightarrow> tracker \<Rightarrow> error + tracker" where
  "UnlockShared this t = DCHECK_call (TryReleaseSharedMutex this t)"

definition UnlockExclusive :: "ptr \<Rightarrow> tracker \<Rightarrow> error + tracker" where
  "UnlockExclusive this t = DCHECK_call (TryReleaseSharedMutex this t)"

definition TryLockShared :: "ptr \<Rightarrow> bool \<Rightarrow> tracker \<Rightarrow> error + (bool \<times> tracker)" where
  "TryLockShared this result t =
     (case SharedMutexNotHeld this t of
        Inl e \<Rightarrow> Inl e
      | Inr not_held \<Rightarrow>
          (if \<not> not_held then Inl Fatal
           else if result then
             (case DCHECK_call (TryHoldSharedMutex this t) of
                Inl e \<Rightarrow> Inl e
              | Inr t' \<Rightarrow> Inr (result, t'))
           else Inr (result, t)))"

definition TryLockExclusive :: "ptr \<Rightarrow> bool \<Rightarrow> tracker \<Rightarrow> error + (bool \<times> tracker)" where
  "TryLockExclusive this result t =
     (case SharedMutexNotHeld this t of
        Inl e \<Rightarrow> Inl e
      | Inr not_held \<Rightarrow>
          (if \<not> not_held then Inl Fatal
           else if result then
             (case DCHECK_call (TryHoldSharedMutex this t) of
                Inl e \<Rightarrow> Inl e
              | Inr t' \<Rightarrow> Inr (result, t'))
           else Inr (result, t)))"

subsection \<open>The tagged variant of the representation\<close>

text \<open>
  The design note's view of the tracker, following the specification's words:
  a tagged variant of three cases, and the tracker state each case stands for.
\<close>

datatype held_variant = Empty | Single ptr | Many "ptr set"

fun variant_tracker :: "held_variant \<Rightarrow> tracker" where
  "variant_tracker Empty =
     \<lparr>single_held_shared_mutex = nullptr, held_shared_mutexes = None\<rparr>"
| "variant_tracker (Single a) =
     \<lparr>single_held_shared_mutex = a, held_shared_mutexes = None\<rparr>"
| "variant_tracker (Many s) =
     \<lparr>single_held_shared_mutex = nullptr, held_shared_mutexes = Some s\<rparr>"

section \<open>Mutex (the exclusive mutex)\<close>

text \<open>
  The object's debug state is its field \<open>level_\<close> (an identifier cannot end in an
  underscore here, so the field is \<open>level\<close>). Its declaration is in the header,
  which is not among the sources; the specification calls it an integer.
  The native lock is external: \<open>Lock\<close> returns once it is acquired, and the
  result of the native \<open>TryLock\<close> is the parameter \<open>native\<close>.
\<close>

record Mutex =
  level :: int

definition Mutex_ctor :: Mutex where
  "Mutex_ctor = \<lparr>level = 0\<rparr>"

definition Mutex_dtor :: "Mutex \<Rightarrow> error + unit" where
  "Mutex_dtor m = (if level m = 0 then Inr () else Inl Fatal)"

text \<open>
  Modelled from the spec: \<open>AssertUnheldAndMark\<close> is a member of \<open>Mutex\<close> defined in
  the header \<open>mutex.h\<close>, which is not among the sources. The specification (4.1):
  on acquisition, \<open>Lock\<close> asserts the debug counter is currently 0 and sets it to 1.
\<close>

definition AssertUnheldAndMark :: "Mutex \<Rightarrow> error + Mutex" where
  "AssertUnheldAndMark m =
     (if level m = 0 then Inr (m\<lparr>level := 1\<rparr>) else Inl Fatal)"

text \<open>
  Modelled from the spec: \<open>AssertHeldAndUnmark\<close> is a member of \<open>Mutex\<close> defined in
  the header \<open>mutex.h\<close>, which is not among the sources. The specification (4.1):
  \<open>Unlock\<close> asserts the counter is 1 and sets it to 0.
\<close>

definition AssertHeldAndUnmark :: "Mutex \<Rightarrow> error + Mutex" where
  "AssertHeldAndUnmark m =
     (if level m = 1 then Inr (m\<lparr>level := 0\<rparr>) else Inl Fatal)"

definition Mutex_Lock :: "Mutex \<Rightarrow> error + Mutex" where
  "Mutex_Lock m = AssertUnheldAndMark m"

definition Mutex_Unlock :: "Mutex \<Rightarrow> error + Mutex" where
  "Mutex_Unlock m = AssertHeldAndUnmark m"

definition Mutex_TryLock :: "bool \<Rightarrow> Mutex \<Rightarrow> error + (bool \<times> Mutex)" where
  "Mutex_TryLock native m =
     (if \<not> native then Inr (False, m)
      else (case AssertUnheldAndMark m of
              Inl e \<Rightarrow> Inl e
            | Inr m' \<Rightarrow> Inr (True, m')))"

text \<open>The states of one mutex: as constructed, and after every returning call.\<close>

inductive Mutex_reachable :: "Mutex \<Rightarrow> bool" where
  Mutex_reachable_ctor: "Mutex_reachable Mutex_ctor"
| Mutex_reachable_Lock:
    "Mutex_reachable m \<Longrightarrow> Mutex_Lock m = Inr m' \<Longrightarrow> Mutex_reachable m'"
| Mutex_reachable_Unlock:
    "Mutex_reachable m \<Longrightarrow> Mutex_Unlock m = Inr m' \<Longrightarrow> Mutex_reachable m'"
| Mutex_reachable_TryLock:
    "Mutex_reachable m \<Longrightarrow> Mutex_TryLock native m = Inr (b, m') \<Longrightarrow> Mutex_reachable m'"

section \<open>RecursiveMutex\<close>














section \<open>SpinningMutex\<close>

text \<open>
  \<open>Lock\<close> is modelled by what it does to the outside, in order: reading the
  address of the weak symbol in the condition of its \<open>if\<close>, and the native call
  it makes. The weak symbol's address is \<open>nullptr\<close> when the loader did not
  find it. On Darwin \<open>lock\<close> is the address of the \<open>os_unfair_lock\<close>; elsewhere
  it is the address of the member \<open>lock_\<close>, whose \<open>Lock\<close> is called.
\<close>

datatype event =
    Test_os_unfair_lock_lock_with_options
  | Call_os_unfair_lock_lock_with_options ptr "32 word"
  | Call_os_unfair_lock_lock ptr
  | Call_lock_Lock ptr

definition OS_UNFAIR_LOCK_DATA_SYNCHRONIZATION :: "32 word" where
  "OS_UNFAIR_LOCK_DATA_SYNCHRONIZATION = 0x00010000"

definition OS_UNFAIR_LOCK_ADAPTIVE_SPIN :: "32 word" where
  "OS_UNFAIR_LOCK_ADAPTIVE_SPIN = 0x00040000"

definition SpinningMutex_Lock :: "bool \<Rightarrow> ptr \<Rightarrow> ptr \<Rightarrow> event list" where
  "SpinningMutex_Lock darwin os_unfair_lock_lock_with_options lock =
     (if darwin then
        (if os_unfair_lock_lock_with_options \<noteq> nullptr then
           (let options =
                  OS_UNFAIR_LOCK_DATA_SYNCHRONIZATION OR OS_UNFAIR_LOCK_ADAPTIVE_SPIN
            in [Test_os_unfair_lock_lock_with_options,
                Call_os_unfair_lock_lock_with_options lock options])
         else [Test_os_unfair_lock_lock_with_options,
               Call_os_unfair_lock_lock lock])
      else [Call_lock_Lock lock])"

text \<open>A process that calls \<open>Lock\<close> \<open>n\<close> times, and the symbol tests in a trace.\<close>

fun SpinningMutex_Lock_times :: "nat \<Rightarrow> bool \<Rightarrow> ptr \<Rightarrow> ptr \<Rightarrow> event list" where
  "SpinningMutex_Lock_times 0 darwin weak lock = []"
| "SpinningMutex_Lock_times (Suc n) darwin weak lock =
     SpinningMutex_Lock darwin weak lock @ SpinningMutex_Lock_times n darwin weak lock"

definition symbol_tests :: "event list \<Rightarrow> nat" where
  "symbol_tests es = length (filter (\<lambda>e. e = Test_os_unfair_lock_lock_with_options) es)"

section \<open>Properties of the tracker\<close>

lemma tracker_inv_initial: "tracker_inv initial_tracker"
  by (simp add: tracker_inv_def initial_tracker_def)

lemma TryHold_preserves_inv:
  "tracker_inv t \<Longrightarrow> TryHoldSharedMutex m t = Inr (b, t') \<Longrightarrow> tracker_inv t'"
  by (auto simp: tracker_inv_def TryHoldSharedMutex_def split: if_splits option.splits)

lemma TryRelease_preserves_inv:
  "tracker_inv t \<Longrightarrow> TryReleaseSharedMutex m t = Inr (b, t') \<Longrightarrow> tracker_inv t'"
  by (auto simp: tracker_inv_def TryReleaseSharedMutex_def split: if_splits option.splits)

lemma reachable_inv: "reachable t \<Longrightarrow> tracker_inv t"
  by (induction rule: reachable.induct)
     (auto intro: tracker_inv_initial TryHold_preserves_inv TryRelease_preserves_inv)

lemma SharedMutexNotHeld_held_set:
  "m \<noteq> nullptr \<Longrightarrow> SharedMutexNotHeld m t = Inr (m \<notin> held_set t)"
  by (auto simp: SharedMutexNotHeld_def held_set_def split: option.splits)

lemma TryHold_held_set:
  assumes "tracker_inv t" and "m \<noteq> nullptr"
  shows "\<exists>t'. TryHoldSharedMutex m t = Inr (m \<notin> held_set t, t') \<and>
              held_set t' = insert m (held_set t)"
  using assms
  by (auto simp: tracker_inv_def TryHoldSharedMutex_def held_set_def split: option.splits)

lemma TryRelease_held_set:
  assumes "tracker_inv t" and "m \<noteq> nullptr"
  shows "\<exists>t'. TryReleaseSharedMutex m t = Inr (m \<in> held_set t, t') \<and>
              held_set t' = held_set t - {m}"
  using assms
  by (auto simp: tracker_inv_def TryReleaseSharedMutex_def held_set_def split: option.splits)

lemma reachable_Single: "a \<noteq> nullptr \<Longrightarrow> reachable (variant_tracker (Single a))"
  by (rule reachable_hold [OF reachable_init, of a True])
     (simp add: TryHoldSharedMutex_def initial_tracker_def)

lemma reachable_Many2:
  "a \<noteq> nullptr \<Longrightarrow> m \<noteq> nullptr \<Longrightarrow> m \<noteq> a \<Longrightarrow> reachable (variant_tracker (Many {a, m}))"
  by (rule reachable_hold [OF reachable_Single, of a m True])
     (simp_all add: TryHoldSharedMutex_def)

lemma Lock_held:
  assumes "reachable t" and "this \<noteq> nullptr" and "this \<in> held_set t"
  shows "DCHECK_call (TryHoldSharedMutex this t) = Inl Fatal"
  using TryHold_held_set [OF reachable_inv [OF assms(1)] assms(2)] assms(3)
  by (auto simp: DCHECK_call_def)

lemma Lock_not_held:
  assumes "reachable t" and "this \<noteq> nullptr" and "this \<notin> held_set t"
  shows "\<exists>t'. DCHECK_call (TryHoldSharedMutex this t) = Inr t' \<and> reachable t' \<and>
               held_set t' = insert this (held_set t)"
proof -
  from TryHold_held_set [OF reachable_inv [OF assms(1)] assms(2)] assms(3)
  obtain t' where h: "TryHoldSharedMutex this t = Inr (True, t')"
    and s: "held_set t' = insert this (held_set t)" by auto
  from reachable_hold [OF assms(1) h] have "reachable t'" .
  with h s show ?thesis by (simp add: DCHECK_call_def)
qed

lemma Unlock_not_held:
  assumes "reachable t" and "this \<noteq> nullptr" and "this \<notin> held_set t"
  shows "DCHECK_call (TryReleaseSharedMutex this t) = Inl Fatal"
  using TryRelease_held_set [OF reachable_inv [OF assms(1)] assms(2)] assms(3)
  by (auto simp: DCHECK_call_def)

lemma Unlock_held:
  assumes "reachable t" and "this \<noteq> nullptr" and "this \<in> held_set t"
  shows "\<exists>t'. DCHECK_call (TryReleaseSharedMutex this t) = Inr t' \<and> reachable t' \<and>
               held_set t' = held_set t - {this}"
proof -
  from TryRelease_held_set [OF reachable_inv [OF assms(1)] assms(2)] assms(3)
  obtain t' where h: "TryReleaseSharedMutex this t = Inr (True, t')"
    and s: "held_set t' = held_set t - {this}" by auto
  from reachable_release [OF assms(1) h] have "reachable t'" .
  with h s show ?thesis by (simp add: DCHECK_call_def)
qed

section \<open>SharedMutex: locking and unlocking against the held-set\<close>

text \<open>
  Claim C1. For every SharedMutex instance (a non-null \<open>this\<close>) and every state of
  the calling thread's tracker: \<open>LockShared\<close> and \<open>LockExclusive\<close> are fatal when
  the held-set already contains the instance, and otherwise add it to the
  held-set; \<open>UnlockShared\<close> and \<open>UnlockExclusive\<close> are fatal when the instance is
  not in the held-set, and otherwise remove it. So after a lock in either mode a
  second lock of the same instance, in either mode, is fatal: a thread never
  holds the same SharedMutex twice.
\<close>

theorem SharedMutex_lock_unlock_held_set:
  assumes "reachable t" and "this \<noteq> nullptr"
  shows "(this \<in> held_set t \<longrightarrow>
            LockShared this t = Inl Fatal \<and> LockExclusive this t = Inl Fatal \<and>
            (\<exists>t'. UnlockShared this t = Inr t' \<and> UnlockExclusive this t = Inr t' \<and>
                  reachable t' \<and> held_set t' = held_set t - {this})) \<and>
         (this \<notin> held_set t \<longrightarrow>
            UnlockShared this t = Inl Fatal \<and> UnlockExclusive this t = Inl Fatal \<and>
            (\<exists>t'. LockShared this t = Inr t' \<and> LockExclusive this t = Inr t' \<and>
                  reachable t' \<and> held_set t' = insert this (held_set t) \<and>
                  LockShared this t' = Inl Fatal \<and> LockExclusive this t' = Inl Fatal))"
proof (intro conjI impI)
  assume h: "this \<in> held_set t"
  show "LockShared this t = Inl Fatal" "LockExclusive this t = Inl Fatal"
    using Lock_held [OF assms h] by (simp_all add: LockShared_def LockExclusive_def)
  show "\<exists>t'. UnlockShared this t = Inr t' \<and> UnlockExclusive this t = Inr t' \<and>
             reachable t' \<and> held_set t' = held_set t - {this}"
    using Unlock_held [OF assms h] by (simp add: UnlockShared_def UnlockExclusive_def)
next
  assume h: "this \<notin> held_set t"
  show "UnlockShared this t = Inl Fatal" "UnlockExclusive this t = Inl Fatal"
    using Unlock_not_held [OF assms h] by (simp_all add: UnlockShared_def UnlockExclusive_def)
  from Lock_not_held [OF assms h] obtain t' where
    l: "DCHECK_call (TryHoldSharedMutex this t) = Inr t'" and r: "reachable t'"
    and s: "held_set t' = insert this (held_set t)" by blast
  from s have "this \<in> held_set t'" by simp
  from Lock_held [OF r assms(2) this] l r s
  show "\<exists>t'. LockShared this t = Inr t' \<and> LockExclusive this t = Inr t' \<and>
             reachable t' \<and> held_set t' = insert this (held_set t) \<and>
             LockShared this t' = Inl Fatal \<and> LockExclusive this t' = Inl Fatal"
    by (auto simp: LockShared_def LockExclusive_def)
qed

theorem SharedMutex_lock_unlock_held_set_witness:
  "reachable (variant_tracker (Single 1)) \<and> (1::ptr) \<noteq> nullptr \<and> (2::ptr) \<noteq> nullptr \<and>
   1 \<in> held_set (variant_tracker (Single 1)) \<and>
   LockShared 1 (variant_tracker (Single 1)) = Inl Fatal \<and>
   LockExclusive 1 (variant_tracker (Single 1)) = Inl Fatal \<and>
   (\<exists>t'. UnlockShared 1 (variant_tracker (Single 1)) = Inr t' \<and>
         UnlockExclusive 1 (variant_tracker (Single 1)) = Inr t' \<and>
         reachable t' \<and> held_set t' = held_set (variant_tracker (Single 1)) - {1}) \<and>
   2 \<notin> held_set (variant_tracker (Single 1)) \<and>
   UnlockShared 2 (variant_tracker (Single 1)) = Inl Fatal \<and>
   UnlockExclusive 2 (variant_tracker (Single 1)) = Inl Fatal \<and>
   (\<exists>t'. LockShared 2 (variant_tracker (Single 1)) = Inr t' \<and>
         LockExclusive 2 (variant_tracker (Single 1)) = Inr t' \<and>
         reachable t' \<and> held_set t' = insert 2 (held_set (variant_tracker (Single 1))) \<and>
         LockShared 2 t' = Inl Fatal \<and> LockExclusive 2 t' = Inl Fatal)"
proof -
  have r: "reachable (variant_tracker (Single 1))" by (rule reachable_Single) simp
  have i: "1 \<in> held_set (variant_tracker (Single 1))" by (simp add: held_set_def)
  have n: "2 \<notin> held_set (variant_tracker (Single 1))" by (simp add: held_set_def)
  from SharedMutex_lock_unlock_held_set [OF r, of 1]
       SharedMutex_lock_unlock_held_set [OF r, of 2] r i n
  show ?thesis by simp
qed

section \<open>SharedMutex: the non-blocking acquisitions\<close>

text \<open>
  Claim C3. For every SharedMutex instance (a non-null \<open>this\<close>) and every state of
  the calling thread's tracker: \<open>TryLockShared\<close> and \<open>TryLockExclusive\<close> are
  fatal when the instance is already held, whatever the native acquisition would
  return; otherwise, when the native acquisition fails they return false and
  leave the tracker as it was, and when it succeeds they return true and the
  instance is added to the held-set.
\<close>

theorem SharedMutex_trylock_held_set:
  assumes "reachable t" and "this \<noteq> nullptr"
  shows "(this \<in> held_set t \<longrightarrow>
            TryLockShared this result t = Inl Fatal \<and>
            TryLockExclusive this result t = Inl Fatal) \<and>
         (this \<notin> held_set t \<longrightarrow>
            TryLockShared this False t = Inr (False, t) \<and>
            TryLockExclusive this False t = Inr (False, t) \<and>
            (\<exists>t'. TryLockShared this True t = Inr (True, t') \<and>
                  TryLockExclusive this True t = Inr (True, t') \<and>
                  reachable t' \<and> held_set t' = insert this (held_set t)))"
proof (intro conjI impI)
  assume h: "this \<in> held_set t"
  show "TryLockShared this result t = Inl Fatal"
    using h by (simp add: TryLockShared_def SharedMutexNotHeld_held_set [OF assms(2)])
  show "TryLockExclusive this result t = Inl Fatal"
    using h by (simp add: TryLockExclusive_def SharedMutexNotHeld_held_set [OF assms(2)])
next
  assume h: "this \<notin> held_set t"
  show "TryLockShared this False t = Inr (False, t)"
    using h by (simp add: TryLockShared_def SharedMutexNotHeld_held_set [OF assms(2)])
  show "TryLockExclusive this False t = Inr (False, t)"
    using h by (simp add: TryLockExclusive_def SharedMutexNotHeld_held_set [OF assms(2)])
  from Lock_not_held [OF assms h] obtain t' where
    l: "DCHECK_call (TryHoldSharedMutex this t) = Inr t'" and r: "reachable t'"
    and s: "held_set t' = insert this (held_set t)" by blast
  then show "\<exists>t'. TryLockShared this True t = Inr (True, t') \<and>
                  TryLockExclusive this True t = Inr (True, t') \<and>
                  reachable t' \<and> held_set t' = insert this (held_set t)"
    using h
    by (simp add: TryLockShared_def TryLockExclusive_def
                  SharedMutexNotHeld_held_set [OF assms(2)])
qed

theorem SharedMutex_trylock_held_set_witness:
  "reachable (variant_tracker (Many {1, 2})) \<and> (2::ptr) \<noteq> nullptr \<and> (3::ptr) \<noteq> nullptr \<and>
   2 \<in> held_set (variant_tracker (Many {1, 2})) \<and>
   TryLockShared 2 True (variant_tracker (Many {1, 2})) = Inl Fatal \<and>
   TryLockExclusive 2 False (variant_tracker (Many {1, 2})) = Inl Fatal \<and>
   3 \<notin> held_set (variant_tracker (Many {1, 2})) \<and>
   TryLockShared 3 False (variant_tracker (Many {1, 2})) =
     Inr (False, variant_tracker (Many {1, 2})) \<and>
   TryLockExclusive 3 False (variant_tracker (Many {1, 2})) =
     Inr (False, variant_tracker (Many {1, 2})) \<and>
   (\<exists>t'. TryLockShared 3 True (variant_tracker (Many {1, 2})) = Inr (True, t') \<and>
         TryLockExclusive 3 True (variant_tracker (Many {1, 2})) = Inr (True, t') \<and>
         reachable t' \<and> held_set t' = insert 3 (held_set (variant_tracker (Many {1, 2}))))"
proof -
  have r: "reachable (variant_tracker (Many {1, 2}))" by (rule reachable_Many2) simp_all
  have i: "2 \<in> held_set (variant_tracker (Many {1, 2}))" by (simp add: held_set_def)
  have n: "3 \<notin> held_set (variant_tracker (Many {1, 2}))" by (simp add: held_set_def)
  from SharedMutex_trylock_held_set [OF r, of 2 True]
       SharedMutex_trylock_held_set [OF r, of 2 False]
       SharedMutex_trylock_held_set [OF r, of 3] r i n
  show ?thesis by simp
qed

section \<open>The representation invariant of the tracker\<close>

text \<open>
  Claim C9. In every tracker state reachable from the initial empty state by
  calls of \<open>TryHoldSharedMutex\<close> and \<open>TryReleaseSharedMutex\<close>, the single-slot
  pointer and the fallback-set pointer are never both non-null, and an allocated
  fallback set is never empty.
\<close>

theorem reachable_slot_xor_fallback:
  assumes "reachable t"
  shows "\<not> (single_held_shared_mutex t \<noteq> nullptr \<and> held_shared_mutexes t \<noteq> None) \<and>
         held_shared_mutexes t \<noteq> Some {}"
  using reachable_inv [OF assms]
  by (auto simp: tracker_inv_def)

theorem reachable_slot_xor_fallback_witness:
  "reachable (variant_tracker (Many {1, 2})) \<and>
   \<not> (single_held_shared_mutex (variant_tracker (Many {1, 2})) \<noteq> nullptr \<and>
      held_shared_mutexes (variant_tracker (Many {1, 2})) \<noteq> None) \<and>
   held_shared_mutexes (variant_tracker (Many {1, 2})) \<noteq> Some {}"
proof -
  have r: "reachable (variant_tracker (Many {1, 2}))" by (rule reachable_Many2) simp_all
  from reachable_slot_xor_fallback [OF r] r show ?thesis by blast
qed

section \<open>Holding then releasing\<close>

text \<open>
  Claim C10. For every reachable tracker state and every instance \<open>m\<close> (non-null)
  not in the held-set, \<open>TryHoldSharedMutex m\<close> returns true, \<open>TryReleaseSharedMutex m\<close>
  right after it returns true, and the held-set at the end, as a set, is the one
  at the start (the representation may differ).
\<close>

theorem hold_then_release_restores_held_set:
  assumes "reachable t" and "m \<noteq> nullptr" and "m \<notin> held_set t"
  shows "\<exists>t' t''. TryHoldSharedMutex m t = Inr (True, t') \<and>
                  TryReleaseSharedMutex m t' = Inr (True, t'') \<and>
                  held_set t'' = held_set t"
proof -
  from TryHold_held_set [OF reachable_inv [OF assms(1)] assms(2)] assms(3)
  obtain t' where h: "TryHoldSharedMutex m t = Inr (True, t')"
    and s: "held_set t' = insert m (held_set t)" by auto
  have "tracker_inv t'"
    by (rule TryHold_preserves_inv [OF reachable_inv [OF assms(1)] h])
  from TryRelease_held_set [OF this assms(2)] s
  obtain t'' where r: "TryReleaseSharedMutex m t' = Inr (True, t'')"
    and s': "held_set t'' = held_set t' - {m}" by auto
  from s s' assms(3) have "held_set t'' = held_set t" by simp
  with h r show ?thesis by blast
qed

theorem hold_then_release_restores_held_set_witness:
  "reachable (variant_tracker (Single 1)) \<and> (2::ptr) \<noteq> nullptr \<and>
   2 \<notin> held_set (variant_tracker (Single 1)) \<and>
   (\<exists>t' t''. TryHoldSharedMutex 2 (variant_tracker (Single 1)) = Inr (True, t') \<and>
             TryReleaseSharedMutex 2 t' = Inr (True, t'') \<and>
             held_set t'' = held_set (variant_tracker (Single 1)))"
proof -
  have r: "reachable (variant_tracker (Single 1))" by (rule reachable_Single) simp
  have n: "2 \<notin> held_set (variant_tracker (Single 1))" by (simp add: held_set_def)
  from hold_then_release_restores_held_set [OF r _ n, of] r n
  show ?thesis by simp
qed

section \<open>The transitions of the representation\<close>

text \<open>
  Claim C2 says that the representation goes from Many to Single as the held
  instances shrink. It does not: after holding 1 and 2 and releasing 2, the one
  instance left is in the fallback set, the slot is null, and the state is
  neither the one of \<open>Single 1\<close> nor the empty one.
\<close>

theorem shrink_keeps_fallback_counterexample:
  "TryHoldSharedMutex 1 initial_tracker = Inr (True, variant_tracker (Single 1)) \<and>
   TryHoldSharedMutex 2 (variant_tracker (Single 1)) =
     Inr (True, variant_tracker (Many {1, 2})) \<and>
   TryReleaseSharedMutex 2 (variant_tracker (Many {1, 2})) =
     Inr (True, variant_tracker (Many {1})) \<and>
   held_set (variant_tracker (Many {1})) = {1} \<and>
   variant_tracker (Many {1}) \<noteq> variant_tracker (Single 1) \<and>
   variant_tracker (Many {1}) \<noteq> variant_tracker Empty"
  by (auto simp: TryHoldSharedMutex_def TryReleaseSharedMutex_def initial_tracker_def held_set_def)

text \<open>
  Claim C2, amended. Growth is Empty to Single to Many: holding an instance in
  the empty state fills the slot; holding a second, distinct instance allocates
  the fallback set with both and clears the slot; holding a further instance
  inserts it in the fallback set. Shrinking: releasing the slot's instance gives
  the empty state; releasing an instance of the fallback set erases it and keeps
  the fallback set, also with one element left, until the set is empty, when it
  is deallocated and the state is the empty one. No release leads to Single.
\<close>

theorem variant_transitions:
  assumes "m \<noteq> nullptr" and "a \<noteq> nullptr"
  shows "TryHoldSharedMutex m (variant_tracker Empty) =
           Inr (True, variant_tracker (Single m)) \<and>
         (m \<noteq> a \<longrightarrow> TryHoldSharedMutex m (variant_tracker (Single a)) =
           Inr (True, variant_tracker (Many {a, m}))) \<and>
         (m \<notin> s \<longrightarrow> TryHoldSharedMutex m (variant_tracker (Many s)) =
           Inr (True, variant_tracker (Many (insert m s)))) \<and>
         TryReleaseSharedMutex a (variant_tracker (Single a)) =
           Inr (True, variant_tracker Empty) \<and>
         (m \<in> s \<longrightarrow> TryReleaseSharedMutex m (variant_tracker (Many s)) =
           Inr (True, if s - {m} = {} then variant_tracker Empty
                      else variant_tracker (Many (s - {m}))))"
  using assms
  by (simp add: TryHoldSharedMutex_def TryReleaseSharedMutex_def)

theorem variant_transitions_witness:
  "(2::ptr) \<noteq> nullptr \<and> (1::ptr) \<noteq> nullptr \<and>
   TryHoldSharedMutex 2 (variant_tracker Empty) = Inr (True, variant_tracker (Single 2)) \<and>
   (2::ptr) \<noteq> 1 \<and>
   TryHoldSharedMutex 2 (variant_tracker (Single 1)) =
     Inr (True, variant_tracker (Many {1, 2})) \<and>
   (2::ptr) \<notin> {1, 3} \<and>
   TryHoldSharedMutex 2 (variant_tracker (Many {1, 3})) =
     Inr (True, variant_tracker (Many {2, 1, 3})) \<and>
   TryReleaseSharedMutex 1 (variant_tracker (Single 1)) = Inr (True, variant_tracker Empty) \<and>
   (2::ptr) \<in> {1, 2} \<and>
   TryReleaseSharedMutex 2 (variant_tracker (Many {1, 2})) =
     Inr (True, variant_tracker (Many {1})) \<and>
   (2::ptr) \<in> {2} \<and>
   TryReleaseSharedMutex 2 (variant_tracker (Many {2})) = Inr (True, variant_tracker Empty)"
  using variant_transitions [of 2 1 "{1, 3}"] variant_transitions [of 2 1 "{1, 2}"]
        variant_transitions [of 2 1 "{2}"]
  by auto

section \<open>Mutex: the level counter\<close>

lemma Mutex_reachable_level: "Mutex_reachable m \<Longrightarrow> level m = 0 \<or> level m = 1"
  by (induction rule: Mutex_reachable.induct)
     (auto simp: Mutex_ctor_def Mutex_Lock_def Mutex_Unlock_def Mutex_TryLock_def
                 AssertUnheldAndMark_def AssertHeldAndUnmark_def split: if_splits)

lemma Mutex_reachable_locked: "Mutex_reachable \<lparr>level = 1\<rparr>"
  by (rule Mutex_reachable_Lock [OF Mutex_reachable_ctor])
     (simp add: Mutex_Lock_def AssertUnheldAndMark_def Mutex_ctor_def)

text \<open>
  Claim C4. The debug level counter of a Mutex is 0 at construction; in every
  state the mutex can reach it is 0 or 1; \<open>Lock\<close> and a successful \<open>TryLock\<close>
  are fatal unless it is 0 and set it to 1 (a failed \<open>TryLock\<close> changes nothing);
  \<open>Unlock\<close> is fatal unless it is 1 and sets it to 0; destruction is fatal
  unless it is 0.
\<close>

theorem Mutex_level_zero_or_one:
  "level Mutex_ctor = 0 \<and>
   (Mutex_reachable m \<longrightarrow> level m = 0 \<or> level m = 1) \<and>
   Mutex_Lock m = (if level m = 0 then Inr (m\<lparr>level := 1\<rparr>) else Inl Fatal) \<and>
   Mutex_TryLock True m = (if level m = 0 then Inr (True, m\<lparr>level := 1\<rparr>) else Inl Fatal) \<and>
   Mutex_TryLock False m = Inr (False, m) \<and>
   Mutex_Unlock m = (if level m = 1 then Inr (m\<lparr>level := 0\<rparr>) else Inl Fatal) \<and>
   Mutex_dtor m = (if level m = 0 then Inr () else Inl Fatal)"
  using Mutex_reachable_level [of m]
  by (simp add: Mutex_ctor_def Mutex_Lock_def Mutex_Unlock_def Mutex_TryLock_def
                Mutex_dtor_def AssertUnheldAndMark_def AssertHeldAndUnmark_def)

theorem Mutex_level_zero_or_one_witness:
  "level Mutex_ctor = 0 \<and>
   Mutex_reachable \<lparr>level = 1\<rparr> \<and>
   Mutex_Lock \<lparr>level = 1\<rparr> = Inl Fatal \<and>
   Mutex_TryLock True \<lparr>level = 1\<rparr> = Inl Fatal \<and>
   Mutex_TryLock False \<lparr>level = 1\<rparr> = Inr (False, \<lparr>level = 1\<rparr>) \<and>
   Mutex_Unlock \<lparr>level = 1\<rparr> = Inr \<lparr>level = 0\<rparr> \<and>
   Mutex_dtor \<lparr>level = 1\<rparr> = Inl Fatal \<and>
   Mutex_reachable Mutex_ctor \<and>
   Mutex_Lock Mutex_ctor = Inr \<lparr>level = 1\<rparr> \<and>
   Mutex_TryLock True Mutex_ctor = Inr (True, \<lparr>level = 1\<rparr>) \<and>
   Mutex_Unlock Mutex_ctor = Inl Fatal \<and>
   Mutex_dtor Mutex_ctor = Inr ()"
  using Mutex_level_zero_or_one [of "\<lparr>level = 1\<rparr>"] Mutex_level_zero_or_one [of Mutex_ctor]
        Mutex_reachable_locked Mutex_reachable_ctor
  by (simp add: Mutex_ctor_def)

text \<open>
  Claim C6. \<open>Unlock\<close> on a Mutex whose counter is 0 takes the fatal path, and
  \<open>Unlock\<close> right after a \<open>Lock\<close> that returned does not: it returns with the
  counter back at 0.
\<close>

theorem Mutex_unbalanced_Unlock_fatal:
  "(level m = 0 \<longrightarrow> Mutex_Unlock m = Inl Fatal) \<and>
   (\<forall>m'. Mutex_Lock m = Inr m' \<longrightarrow> Mutex_Unlock m' = Inr (m'\<lparr>level := 0\<rparr>))"
  by (auto simp: Mutex_Lock_def Mutex_Unlock_def AssertUnheldAndMark_def
                 AssertHeldAndUnmark_def split: if_splits)

theorem Mutex_unbalanced_Unlock_fatal_witness:
  "level Mutex_ctor = 0 \<and> Mutex_Unlock Mutex_ctor = Inl Fatal \<and>
   Mutex_Lock Mutex_ctor = Inr \<lparr>level = 1\<rparr> \<and>
   Mutex_Unlock \<lparr>level = 1\<rparr> = Inr Mutex_ctor"
proof -
  have l: "Mutex_Lock Mutex_ctor = Inr \<lparr>level = 1\<rparr>"
    by (simp add: Mutex_Lock_def AssertUnheldAndMark_def Mutex_ctor_def)
  have z: "level Mutex_ctor = 0" by (simp add: Mutex_ctor_def)
  from Mutex_unbalanced_Unlock_fatal [of Mutex_ctor] l z
  show ?thesis by (simp add: Mutex_ctor_def)
qed

section \<open>RecursiveMutex: the depth counter\<close>




















section \<open>SpinningMutex: the optional entry point\<close>

lemma symbol_tests_Nil: "symbol_tests [] = 0"
  by (simp add: symbol_tests_def)

lemma symbol_tests_append: "symbol_tests (xs @ ys) = symbol_tests xs + symbol_tests ys"
  by (simp add: symbol_tests_def)

lemma symbol_tests_Lock_darwin: "symbol_tests (SpinningMutex_Lock True weak lock) = 1"
  by (simp add: symbol_tests_def SpinningMutex_Lock_def Let_def)

text \<open>
  Claim C7. On Darwin \<open>SpinningMutex::Lock\<close> tests the weak symbol
  \<open>os_unfair_lock_lock_with_options\<close>; when it is present the lock is taken
  through it with the options data-synchronization and adaptive-spin combined
  (the value \<open>0x00050000\<close>), and when it is absent through \<open>os_unfair_lock_lock\<close>,
  which takes no options.
\<close>

theorem SpinningMutex_Lock_darwin:
  "(weak \<noteq> nullptr \<longrightarrow>
      SpinningMutex_Lock True weak lock =
        [Test_os_unfair_lock_lock_with_options,
         Call_os_unfair_lock_lock_with_options lock
           (OS_UNFAIR_LOCK_DATA_SYNCHRONIZATION OR OS_UNFAIR_LOCK_ADAPTIVE_SPIN)]) \<and>
   SpinningMutex_Lock True nullptr lock =
     [Test_os_unfair_lock_lock_with_options, Call_os_unfair_lock_lock lock] \<and>
   OS_UNFAIR_LOCK_DATA_SYNCHRONIZATION OR OS_UNFAIR_LOCK_ADAPTIVE_SPIN = 0x00050000"
  by (simp add: SpinningMutex_Lock_def Let_def OS_UNFAIR_LOCK_DATA_SYNCHRONIZATION_def
                OS_UNFAIR_LOCK_ADAPTIVE_SPIN_def)

theorem SpinningMutex_Lock_darwin_witness:
  "(7::ptr) \<noteq> nullptr \<and>
   SpinningMutex_Lock True 7 9 =
     [Test_os_unfair_lock_lock_with_options,
      Call_os_unfair_lock_lock_with_options 9 0x00050000] \<and>
   SpinningMutex_Lock True nullptr 9 =
     [Test_os_unfair_lock_lock_with_options, Call_os_unfair_lock_lock 9]"
  using SpinningMutex_Lock_darwin [of 7 9]
  by simp

text \<open>
  Claim C8 says that the detection happens at most once per process and that no
  call of \<open>Lock\<close> branches on the presence of the symbol. Two calls of \<open>Lock\<close>
  test the symbol twice.
\<close>

theorem SpinningMutex_probe_twice_counterexample:
  "SpinningMutex_Lock_times 2 True 7 9 =
     [Test_os_unfair_lock_lock_with_options,
      Call_os_unfair_lock_lock_with_options 9 0x00050000,
      Test_os_unfair_lock_lock_with_options,
      Call_os_unfair_lock_lock_with_options 9 0x00050000] \<and>
   symbol_tests (SpinningMutex_Lock_times 2 True 7 9) = 2 \<and>
   \<not> symbol_tests (SpinningMutex_Lock_times 2 True 7 9) \<le> 1"
proof -
  have l: "SpinningMutex_Lock True 7 9 =
             [Test_os_unfair_lock_lock_with_options,
              Call_os_unfair_lock_lock_with_options 9 0x00050000]"
    by (simp add: SpinningMutex_Lock_def Let_def OS_UNFAIR_LOCK_DATA_SYNCHRONIZATION_def
                  OS_UNFAIR_LOCK_ADAPTIVE_SPIN_def)
  have t: "SpinningMutex_Lock_times 2 True 7 9 =
             SpinningMutex_Lock True 7 9 @ SpinningMutex_Lock True 7 9"
    by (simp add: numeral_2_eq_2)
  show ?thesis
    unfolding t by (simp add: l symbol_tests_def)
qed

text \<open>
  Claim C8, amended. On Darwin every call of \<open>Lock\<close> starts by testing the
  address of the weak symbol: a process that calls \<open>Lock\<close> \<open>n\<close> times tests it
  \<open>n\<close> times. The test changes nothing, so with the symbol's address fixed
  every call does the same as the first; no resolved function is kept between
  calls.
\<close>

theorem SpinningMutex_probe_every_call:
  "symbol_tests (SpinningMutex_Lock_times n True weak lock) = n \<and>
   SpinningMutex_Lock_times n True weak lock =
     concat (replicate n (SpinningMutex_Lock True weak lock)) \<and>
   hd (SpinningMutex_Lock True weak lock) = Test_os_unfair_lock_lock_with_options"
proof (intro conjI)
  show "symbol_tests (SpinningMutex_Lock_times n True weak lock) = n"
    by (induction n) (simp_all add: symbol_tests_Nil symbol_tests_append symbol_tests_Lock_darwin)
  show "SpinningMutex_Lock_times n True weak lock =
          concat (replicate n (SpinningMutex_Lock True weak lock))"
    by (induction n) simp_all
  show "hd (SpinningMutex_Lock True weak lock) = Test_os_unfair_lock_lock_with_options"
    by (simp add: SpinningMutex_Lock_def Let_def)
qed

end
